theory Spec2Isabelle
  imports Complex_Main
begin

section \<open>Data-type registration (galaxy/lib/mcfe\_datatypes.py)\<close>

text \<open>
  The module declares twenty-one marker classes, each a subclass of \<^verbatim>\<open>data.Data\<close> whose
  only member is the class attribute \<^verbatim>\<open>file_ext\<close>. A class is a constructor of
  \<open>mcfe_class\<close>; \<open>class_name\<close> is the name the class statement binds, \<open>file_ext\<close> the
  string literal assigned in the class body.
\<close>

datatype mcfe_class =
  vtp | vtk | vtu | pvtu | usd | usda | usdc | usdz | obj | stp | step
  | h5 | h5m | out | xml | stl | npz | yaml | odb | inp | pth

fun class_name :: "mcfe_class \<Rightarrow> string" where
  "class_name vtp = ''vtp''"
| "class_name vtk = ''vtk''"
| "class_name vtu = ''vtu''"
| "class_name pvtu = ''pvtu''"
| "class_name usd = ''usd''"
| "class_name usda = ''usda''"
| "class_name usdc = ''usdc''"
| "class_name usdz = ''usdz''"
| "class_name obj = ''obj''"
| "class_name stp = ''stp''"
| "class_name step = ''step''"
| "class_name h5 = ''h5''"
| "class_name h5m = ''h5m''"
| "class_name out = ''out''"
| "class_name xml = ''xml''"
| "class_name stl = ''stl''"
| "class_name npz = ''npz''"
| "class_name yaml = ''yaml''"
| "class_name odb = ''odb''"
| "class_name inp = ''inp''"
| "class_name pth = ''pth''"

fun file_ext :: "mcfe_class \<Rightarrow> string" where
  "file_ext vtp = ''vtp''"
| "file_ext vtk = ''vtk''"
| "file_ext vtu = ''vtu''"
| "file_ext pvtu = ''pvtu''"
| "file_ext usd = ''usd''"
| "file_ext usda = ''udsa''"
| "file_ext usdc = ''usdc''"
| "file_ext usdz = ''usdz''"
| "file_ext obj = ''obj''"
| "file_ext stp = ''stp''"
| "file_ext step = ''step''"
| "file_ext h5 = ''h5''"
| "file_ext h5m = ''h5m''"
| "file_ext out = ''out''"
| "file_ext xml = ''xml''"
| "file_ext stl = ''stl''"
| "file_ext npz = ''npz''"
| "file_ext yaml = ''yaml''"
| "file_ext odb = ''odb''"
| "file_ext inp = ''inp''"
| "file_ext pth = ''pth''"

text \<open>The extension identifiers the module exposes, in declaration order.\<close>

definition mcfe_classes :: "mcfe_class list" where
  "mcfe_classes =
     [vtp, vtk, vtu, pvtu, usd, usda, usdc, usdz, obj, stp, step,
      h5, h5m, out, xml, stl, npz, yaml, odb, inp, pth]"

definition file_exts :: "string list" where
  "file_exts = map file_ext mcfe_classes"


section \<open>Containment building (galaxy/tools/containment\_vessel/containment\_vessel.py)\<close>

subsection \<open>The CAD kernel\<close>

text \<open>
  The script builds its solid through calls into the cadquery library. A call that returns
  is recorded as a constructor applied to the arguments the script passes, so that a solid
  is the tree of kernel operations that produced it; nothing is assumed about the geometry
  the kernel computes from such a tree.

  Numbers are Python floats read from a JSON document; they are modelled as reals, so every
  arithmetic statement below is one of exact arithmetic.
\<close>

type_synonym vec3 = "real \<times> real \<times> real"

datatype workplane =
  Workplane string                \<comment> \<open>\<^verbatim>\<open>cq.Workplane(name)\<close>\<close>
| Transformed vec3 workplane      \<comment> \<open>\<^verbatim>\<open>wp.transformed(offset=v)\<close>\<close>

datatype solid =
  Cylinder workplane real real        \<comment> \<open>\<^verbatim>\<open>wp.cylinder(height, radius)\<close>\<close>
| Sphere workplane real               \<comment> \<open>\<^verbatim>\<open>wp.sphere(radius)\<close>\<close>
| Box workplane real real real        \<comment> \<open>\<^verbatim>\<open>wp.box(length, width, height)\<close>\<close>
| Chamfer string real solid           \<comment> \<open>\<^verbatim>\<open>s.edges(selector).chamfer(length)\<close>\<close>
| Translate vec3 solid                \<comment> \<open>\<^verbatim>\<open>s.translate(v)\<close>\<close>
| Cut solid solid                     \<comment> \<open>\<^verbatim>\<open>a.cut(b)\<close>\<close>
| Union_cq solid solid                \<comment> \<open>\<^verbatim>\<open>a.union(b)\<close>\<close>

text \<open>
  An exception is a value: the two \<^verbatim>\<open>ValueError\<close>s the script raises itself (with their
  message), the \<^verbatim>\<open>IndexError\<close> of an empty list, and \<open>KernelError n\<close>, the exception that
  leaves the library call which was to build the node \<open>n\<close>.
\<close>

datatype error =
  ValueError string
| IndexError string
| KernelError solid

text \<open>
  The library is not part of the repository, so which calls it refuses is a parameter of
  every function that calls it: \<open>fails n\<close> holds when the call that is to build the node
  \<open>n\<close> from operands already built raises instead of returning. \<open>cq\<close> is one library
  call, and \<open>and_then\<close> runs the rest of a function body after a call that returned; an
  exception ends the body.
\<close>

type_synonym kernel = "solid \<Rightarrow> bool"

definition cq :: "kernel \<Rightarrow> solid \<Rightarrow> error + solid" where
  "cq fails n = (if fails n then Inl (KernelError n) else Inr n)"

definition and_then :: "error + 'a \<Rightarrow> ('a \<Rightarrow> error + 'b) \<Rightarrow> error + 'b" where
  "and_then m f = (case m of Inl e \<Rightarrow> Inl e | Inr x \<Rightarrow> f x)"

text \<open>
  One refusal of the library is recorded for the concrete examples: OpenCascade, on which
  cadquery is built, raises when asked for a cylinder whose height or radius is not
  positive. \<open>refuses_cylinder\<close> is the kernel that refuses exactly those calls.
\<close>

fun refuses_cylinder :: kernel where
  "refuses_cylinder (Cylinder wp height radius) = (height \<le> 0 \<or> radius \<le> 0)"
| "refuses_cylinder (Sphere wp radius) = False"
| "refuses_cylinder (Box wp l w h) = False"
| "refuses_cylinder (Chamfer sel len s) = False"
| "refuses_cylinder (Translate v s) = False"
| "refuses_cylinder (Cut a b) = False"
| "refuses_cylinder (Union_cq a b) = False"

text \<open>The kernel operations a solid is built from: the nodes of its tree.\<close>

fun operations :: "solid \<Rightarrow> solid set" where
  "operations (Cylinder wp height radius) = {Cylinder wp height radius}"
| "operations (Sphere wp radius) = {Sphere wp radius}"
| "operations (Box wp l w h) = {Box wp l w h}"
| "operations (Chamfer sel len s) = insert (Chamfer sel len s) (operations s)"
| "operations (Translate v s) = insert (Translate v s) (operations s)"
| "operations (Cut a b) = insert (Cut a b) (operations a \<union> operations b)"
| "operations (Union_cq a b) = insert (Union_cq a b) (operations a \<union> operations b)"

subsection \<open>The nested helpers of \<^verbatim>\<open>reactor_building\<close>\<close>

text \<open>Python's built-in \<^verbatim>\<open>sum\<close>: a left fold of \<open>+\<close> from \<open>0\<close>.\<close>

definition sum_py :: "real list \<Rightarrow> real" where
  "sum_py xs = foldl (+) 0 xs"

text \<open>
  \<^verbatim>\<open>create_roof\<close> is a closure: it reads \<^verbatim>\<open>contain_thickness\<close> from the enclosing call, which
  is the second argument here. Each branch makes its library calls in the order of the
  source.
\<close>

definition create_roof :: "kernel \<Rightarrow> real \<Rightarrow> string \<Rightarrow> real \<Rightarrow> real \<Rightarrow> error + solid" where
  "create_roof fails contain_thickness roof_type reactor_building_radius building_height =
    (let roof_thickness = 0.3;
         offset_height = building_height / 2 + roof_thickness / 2
     in
       if roof_type = ''flat'' then
         cq fails (Cylinder (Transformed (0, 0, offset_height) (Workplane ''ZX''))
                     roof_thickness reactor_building_radius)
       else if roof_type = ''domed'' then
         (let outer_radius = reactor_building_radius;
              inner_radius = outer_radius - contain_thickness
          in
            and_then (cq fails (Sphere (Transformed (0, 0, 0) (Workplane ''ZX'')) outer_radius))
              (\<lambda>outer_sphere.
            and_then (cq fails (Sphere (Transformed (0, 0, 0) (Workplane ''ZX'')) inner_radius))
              (\<lambda>inner_sphere.
            and_then (cq fails (Cut outer_sphere inner_sphere))
              (\<lambda>hemisphere.
            and_then (cq fails (Translate (0, offset_height, 0) hemisphere))
              (\<lambda>hemisphere'.
            and_then (cq fails (Box (Workplane ''ZX'')
                                  (3 * outer_radius) (3 * outer_radius) (2 * outer_radius)))
              (\<lambda>box.
            and_then (cq fails (Translate (0, 0, 0) box))
              (\<lambda>cut_box.
            cq fails (Cut hemisphere' cut_box))))))))
       else if roof_type = ''cone'' then
         (let cone_height = roof_thickness * 4;
              bottom_radius = reactor_building_radius;
              wall_thickness = 0.2;
              inner_radius = bottom_radius - wall_thickness
          in
            and_then (cq fails (Cylinder (Workplane ''ZX'') cone_height bottom_radius))
              (\<lambda>cone_base.
            and_then (cq fails (Chamfer ''>Y'' (cone_height * 0.75) cone_base))
              (\<lambda>truncated_cone.
            and_then (cq fails (Cylinder (Workplane ''ZX'') cone_height inner_radius))
              (\<lambda>inner_cone.
            and_then (cq fails (Chamfer ''>Y'' (cone_height * 0.75) inner_cone))
              (\<lambda>chamfered_inner_cone.
            and_then (cq fails (Translate (0, - 0.3, 0) chamfered_inner_cone))
              (\<lambda>truncated_inner_cone.
            and_then (cq fails (Cut truncated_cone truncated_inner_cone))
              (\<lambda>truncated_cone'.
            cq fails (Translate (0, offset_height, 0) truncated_cone'))))))))
       else Inl (ValueError ''Invalid roof type''))"

definition generate_hollow_cylinder ::
    "kernel \<Rightarrow> real \<Rightarrow> real \<Rightarrow> real \<Rightarrow> vec3 \<Rightarrow> error + solid" where
  "generate_hollow_cylinder fails height outer_radius inner_radius offset =
    (if outer_radius \<le> inner_radius then
       Inl (ValueError ''outer_radius must be larger than inner_radius'')
     else
       and_then (cq fails (Cylinder (Transformed offset (Workplane ''ZX'')) height outer_radius))
         (\<lambda>cylinder1.
       and_then (cq fails (Cylinder (Transformed offset (Workplane ''ZX'')) height inner_radius))
         (\<lambda>cylinder2.
       cq fails (Cut cylinder1 cylinder2))))"

subsection \<open>The local values of \<^verbatim>\<open>reactor_building\<close>\<close>

text \<open>
  Each local of the function body is a definition over the parameters it depends on, under
  the name it has in the source (the local \<^verbatim>\<open>reactor_building\<close>, which shadows the function's
  own name, is \<open>reactor_building_shell\<close>).
\<close>

definition reactor_core_radius :: "real list \<Rightarrow> real \<Rightarrow> real" where
  "reactor_core_radius radial_build major_rad = sum_py radial_build + 0.8 + major_rad"

definition reactor_core_height :: "real list \<Rightarrow> real \<Rightarrow> real" where
  "reactor_core_height radial_build major_rad = 2 * reactor_core_radius radial_build major_rad"

definition reactor_shielding :: "kernel \<Rightarrow> real list \<Rightarrow> real \<Rightarrow> real \<Rightarrow> error + solid" where
  "reactor_shielding fails radial_build major_rad shield_thickness =
     generate_hollow_cylinder fails
       (reactor_core_height radial_build major_rad)
       (reactor_core_radius radial_build major_rad)
       (reactor_core_radius radial_build major_rad - shield_thickness)
       (0, 0, 0)"

definition reactor_building_shell ::
    "kernel \<Rightarrow> real list \<Rightarrow> real \<Rightarrow> real \<Rightarrow> real \<Rightarrow> error + solid" where
  "reactor_building_shell fails radial_build major_rad building_scale_factor contain_thickness =
     generate_hollow_cylinder fails
       (reactor_core_height radial_build major_rad * building_scale_factor)
       (reactor_core_radius radial_build major_rad * building_scale_factor)
       (reactor_core_radius radial_build major_rad * building_scale_factor - contain_thickness)
       (0, 0, 0)"

definition reactor_core_floor :: "kernel \<Rightarrow> real list \<Rightarrow> real \<Rightarrow> error + solid" where
  "reactor_core_floor fails radial_build major_rad =
     cq fails (Cylinder
       (Transformed (0, 0, - reactor_core_height radial_build major_rad / 2) (Workplane ''ZX''))
       0.3 (reactor_core_radius radial_build major_rad))"

definition reactor_building_floor :: "kernel \<Rightarrow> real list \<Rightarrow> real \<Rightarrow> real \<Rightarrow> error + solid" where
  "reactor_building_floor fails radial_build major_rad building_scale_factor =
     cq fails (Cylinder
       (Transformed
          (0, 0, - reactor_core_height radial_build major_rad * building_scale_factor / 2)
          (Workplane ''ZX''))
       0.3 (reactor_core_radius radial_build major_rad * building_scale_factor))"

definition support_structure_upper :: "kernel \<Rightarrow> real list \<Rightarrow> real \<Rightarrow> real \<Rightarrow> error + solid" where
  "support_structure_upper fails radial_build major_rad building_scale_factor =
     generate_hollow_cylinder fails 0.3
       (reactor_core_radius radial_build major_rad * building_scale_factor)
       (reactor_core_radius radial_build major_rad)
       (0, 0, reactor_core_height radial_build major_rad / 2)"

definition support_structure_middle :: "kernel \<Rightarrow> real list \<Rightarrow> real \<Rightarrow> real \<Rightarrow> error + solid" where
  "support_structure_middle fails radial_build major_rad building_scale_factor =
     generate_hollow_cylinder fails 0.3
       (reactor_core_radius radial_build major_rad * building_scale_factor)
       (reactor_core_radius radial_build major_rad)
       (0, 0, 0)"

definition support_structure_lower :: "kernel \<Rightarrow> real list \<Rightarrow> real \<Rightarrow> real \<Rightarrow> error + solid" where
  "support_structure_lower fails radial_build major_rad building_scale_factor =
     generate_hollow_cylinder fails 0.3
       (reactor_core_radius radial_build major_rad * building_scale_factor)
       (reactor_core_radius radial_build major_rad)
       (0, 0, - reactor_core_height radial_build major_rad / 2)"

definition building_height :: "real list \<Rightarrow> real \<Rightarrow> real \<Rightarrow> real" where
  "building_height radial_build major_rad building_scale_factor =
     reactor_core_height radial_build major_rad * building_scale_factor"

definition roof :: "kernel \<Rightarrow> real list \<Rightarrow> real \<Rightarrow> real \<Rightarrow> real \<Rightarrow> error + solid" where
  "roof fails radial_build major_rad building_scale_factor contain_thickness =
     create_roof fails contain_thickness ''cone''
       (reactor_core_radius radial_build major_rad * building_scale_factor)
       (building_height radial_build major_rad building_scale_factor)"

definition box1 :: "kernel \<Rightarrow> error + solid" where
  "box1 fails =
     and_then (cq fails (Box (Workplane ''front'') 100 100 100))
       (\<lambda>box. cq fails (Translate (0, 0, 50) box))"

subsection \<open>\<^verbatim>\<open>reactor_building\<close>\<close>

text \<open>
  The body evaluates its locals in source order, and the first exception ends the call,
  whether it is raised by a guard of the script or inside a library call: a radius guard
  is reached only when every library call before it has returned. The unions are made in
  the order of the source, then the box is built and cut away.
\<close>

definition reactor_building ::
    "kernel \<Rightarrow> real list \<Rightarrow> real \<Rightarrow> real \<Rightarrow> real \<Rightarrow> real \<Rightarrow> error + solid" where
  "reactor_building fails radial_build major_rad scale_factor shield_thickness
       contain_thickness =
    and_then (reactor_shielding fails radial_build major_rad shield_thickness)
      (\<lambda>shielding.
    and_then (reactor_building_shell fails radial_build major_rad scale_factor contain_thickness)
      (\<lambda>shell.
    and_then (reactor_core_floor fails radial_build major_rad)
      (\<lambda>core_floor.
    and_then (reactor_building_floor fails radial_build major_rad scale_factor)
      (\<lambda>building_floor.
    and_then (support_structure_upper fails radial_build major_rad scale_factor)
      (\<lambda>upper.
    and_then (support_structure_middle fails radial_build major_rad scale_factor)
      (\<lambda>middle.
    and_then (support_structure_lower fails radial_build major_rad scale_factor)
      (\<lambda>lower.
    and_then (roof fails radial_build major_rad scale_factor contain_thickness)
      (\<lambda>roof'.
    and_then (cq fails (Union_cq shielding shell))
      (\<lambda>total_structure.
    and_then (cq fails (Union_cq total_structure core_floor))
      (\<lambda>total_structure1.
    and_then (cq fails (Union_cq total_structure1 building_floor))
      (\<lambda>total_structure2.
    and_then (cq fails (Union_cq total_structure2 upper))
      (\<lambda>total_structure3.
    and_then (cq fails (Union_cq total_structure3 middle))
      (\<lambda>total_structure4.
    and_then (cq fails (Union_cq total_structure4 lower))
      (\<lambda>total_structure5.
    and_then (cq fails (Union_cq total_structure5 roof'))
      (\<lambda>total_structure6.
    and_then (box1 fails)
      (\<lambda>box1'.
    cq fails (Cut total_structure6 box1')))))))))))))))))"

subsection \<open>The script body\<close>

text \<open>
  \<^verbatim>\<open>major_radius = aspect_ratio * radial_build_input[0]\<close>: indexing an empty list raises
  IndexError.
\<close>

definition major_radius :: "real \<Rightarrow> real list \<Rightarrow> error + real" where
  "major_radius aspect_ratio radial_build_input =
     (case radial_build_input of
        [] \<Rightarrow> Inl (IndexError ''list index out of range'')
      | x # _ \<Rightarrow> Inr (aspect_ratio * x))"

definition containment_vessel ::
    "kernel \<Rightarrow> real \<Rightarrow> real list \<Rightarrow> real \<Rightarrow> real \<Rightarrow> real \<Rightarrow> error + solid" where
  "containment_vessel fails aspect_ratio radial_build_input building_sf shield_thickness_input
       contain_thick =
     and_then (major_radius aspect_ratio radial_build_input)
       (\<lambda>major_radius'.
          reactor_building fails radial_build_input major_radius' building_sf
            shield_thickness_input contain_thick)"


section \<open>Properties of the data-type registration\<close>

lemma file_ext_other_classes:
  "file_ext c = class_name c \<or> c = usda"
  by (cases c) simp_all

text \<open>
  C8. The claim is that the class named usda registers the extension string "usda". The
  class body assigns the literal "udsa" instead: the registered extension differs from the
  class name, and "usda" is not among the registered extensions at all, while every other
  class registers its own name.
\<close>

theorem usda_file_ext_is_udsa:
  "file_ext usda = ''udsa'' \<and> file_ext usda \<noteq> class_name usda \<and> ''usda'' \<notin> set file_exts"
  by (simp add: file_exts_def mcfe_classes_def)


section \<open>Properties of the containment building\<close>

subsection \<open>Auxiliary facts\<close>

text \<open>
  Python's \<^verbatim>\<open>sum\<close> is the sum of the list. A body returns a solid exactly when its guards
  pass and the kernel refuses none of the operations the solid is built from; the solid is
  then determined by the parameters alone.
\<close>

lemma foldl_plus_sum_list: "foldl (+) a xs = (a::real) + sum_list xs"
  by (induction xs arbitrary: a) simp_all

lemma sum_py_sum_list: "sum_py xs = sum_list xs"
  by (simp add: sum_py_def foldl_plus_sum_list)

lemma and_then_Inr_iff:
  "(and_then m f = Inr s) = (\<exists>x. m = Inr x \<and> f x = Inr s)"
  by (cases m) (simp_all add: and_then_def)

lemma and_then_Inl_iff:
  "(and_then m f = Inl e) = (m = Inl e \<or> (\<exists>x. m = Inr x \<and> f x = Inl e))"
  by (cases m) (simp_all add: and_then_def)

lemma cq_Inr_iff: "(cq fails n = Inr s) = (\<not> fails n \<and> s = n)"
  by (auto simp add: cq_def)

lemma cq_Inl_iff: "(cq fails n = Inl e) = (fails n \<and> e = KernelError n)"
  by (auto simp add: cq_def)

lemma generate_hollow_cylinder_Inr_iff:
  "(generate_hollow_cylinder fails height outer_radius inner_radius offset = Inr s)
     = (inner_radius < outer_radius
        \<and> s = Cut (Cylinder (Transformed offset (Workplane ''ZX'')) height outer_radius)
                  (Cylinder (Transformed offset (Workplane ''ZX'')) height inner_radius)
        \<and> (\<forall>n \<in> operations s. \<not> fails n))"
  by (auto simp add: generate_hollow_cylinder_def and_then_Inr_iff cq_Inr_iff)


lemma create_roof_cone_Inr_iff:
  "(create_roof fails contain_thickness ''cone'' radius bh = Inr s)
     = (s = Translate (0, bh / 2 + 0.15, 0)
             (Cut (Chamfer ''>Y'' 0.9 (Cylinder (Workplane ''ZX'') 1.2 radius))
                  (Translate (0, - 0.3, 0)
                     (Chamfer ''>Y'' 0.9 (Cylinder (Workplane ''ZX'') 1.2 (radius - 0.2)))))
        \<and> (\<forall>n \<in> operations s. \<not> fails n))"
  by (auto simp add: create_roof_def Let_def and_then_Inr_iff cq_Inr_iff)

lemma create_roof_cone_Inl:
  assumes "create_roof fails contain_thickness ''cone'' radius bh = Inl e"
  shows "\<exists>n. e = KernelError n"
  using assms
  by (auto simp add: create_roof_def Let_def and_then_Inl_iff cq_Inl_iff)

lemma box1_Inr_iff:
  "(box1 fails = Inr s)
     = (s = Translate (0, 0, 50) (Box (Workplane ''front'') 100 100 100)
        \<and> (\<forall>n \<in> operations s. \<not> fails n))"
  by (auto simp add: box1_def and_then_Inr_iff cq_Inr_iff)

lemma reactor_building_Inr_iff:
  "(reactor_building fails rb mr sf st ct = Inr s) =
     (let r = reactor_core_radius rb mr; h = reactor_core_height rb mr;
          zx = (\<lambda>z. Transformed (0, 0, z) (Workplane ''ZX''));
          ring = (\<lambda>z. Cut (Cylinder (zx z) 0.3 (r * sf)) (Cylinder (zx z) 0.3 r))
      in 0 < st \<and> 0 < ct \<and> r < r * sf
       \<and> s = Cut
          (Union_cq (Union_cq (Union_cq (Union_cq (Union_cq (Union_cq (Union_cq
             (Cut (Cylinder (zx 0) h r) (Cylinder (zx 0) h (r - st)))
             (Cut (Cylinder (zx 0) (h * sf) (r * sf)) (Cylinder (zx 0) (h * sf) (r * sf - ct))))
             (Cylinder (zx (- h / 2)) 0.3 r))
             (Cylinder (zx (- h * sf / 2)) 0.3 (r * sf)))
             (ring (h / 2)))
             (ring 0))
             (ring (- h / 2)))
             (Translate (0, h * sf / 2 + 0.15, 0)
               (Cut (Chamfer ''>Y'' 0.9 (Cylinder (Workplane ''ZX'') 1.2 (r * sf)))
                    (Translate (0, - 0.3, 0)
                       (Chamfer ''>Y'' 0.9 (Cylinder (Workplane ''ZX'') 1.2 (r * sf - 0.2)))))))
          (Translate (0, 0, 50) (Box (Workplane ''front'') 100 100 100))
       \<and> (\<forall>n \<in> operations s. \<not> fails n))"
  unfolding reactor_building_def reactor_shielding_def reactor_building_shell_def
    reactor_core_floor_def reactor_building_floor_def support_structure_upper_def
    support_structure_middle_def support_structure_lower_def roof_def building_height_def
    and_then_Inr_iff generate_hollow_cylinder_Inr_iff create_roof_cone_Inr_iff box1_Inr_iff
    cq_Inr_iff Let_def
  by (auto simp add: Un_commute)

lemma reactor_building_Inr_ideal:
  "(reactor_building fails rb mr sf st ct = Inr s)
     = (reactor_building (\<lambda>n. False) rb mr sf st ct = Inr s
        \<and> (\<forall>n \<in> operations s. \<not> fails n))"
  unfolding reactor_building_Inr_iff [of fails] reactor_building_Inr_iff [of "\<lambda>n. False"] Let_def
  by blast




lemma example_dimensions:
  "reactor_core_radius [1, 2, 3] (3 / 2) = 83 / 10"
  "reactor_core_height [1, 2, 3] (3 / 2) = 83 / 5"
  by (simp_all add: reactor_core_radius_def reactor_core_height_def sum_py_def)

lemma reactor_building_example:
  "reactor_building refuses_cylinder [1, 2, 3] (3 / 2) (6 / 5) (1 / 2) (3 / 10) =
     Inr (Cut
          (Union_cq (Union_cq (Union_cq (Union_cq (Union_cq (Union_cq (Union_cq
             (Cut (Cylinder (Transformed (0, 0, 0) (Workplane ''ZX'')) 16.6 8.3)
                  (Cylinder (Transformed (0, 0, 0) (Workplane ''ZX'')) 16.6 7.8))
             (Cut (Cylinder (Transformed (0, 0, 0) (Workplane ''ZX'')) 19.92 9.96)
                  (Cylinder (Transformed (0, 0, 0) (Workplane ''ZX'')) 19.92 9.66)))
             (Cylinder (Transformed (0, 0, - 8.3) (Workplane ''ZX'')) 0.3 8.3))
             (Cylinder (Transformed (0, 0, - 9.96) (Workplane ''ZX'')) 0.3 9.96))
             (Cut (Cylinder (Transformed (0, 0, 8.3) (Workplane ''ZX'')) 0.3 9.96)
                  (Cylinder (Transformed (0, 0, 8.3) (Workplane ''ZX'')) 0.3 8.3)))
             (Cut (Cylinder (Transformed (0, 0, 0) (Workplane ''ZX'')) 0.3 9.96)
                  (Cylinder (Transformed (0, 0, 0) (Workplane ''ZX'')) 0.3 8.3)))
             (Cut (Cylinder (Transformed (0, 0, - 8.3) (Workplane ''ZX'')) 0.3 9.96)
                  (Cylinder (Transformed (0, 0, - 8.3) (Workplane ''ZX'')) 0.3 8.3)))
             (Translate (0, 10.11, 0)
               (Cut (Chamfer ''>Y'' 0.9 (Cylinder (Workplane ''ZX'') 1.2 9.96))
                    (Translate (0, - 0.3, 0)
                       (Chamfer ''>Y'' 0.9 (Cylinder (Workplane ''ZX'') 1.2 9.76))))))
          (Translate (0, 0, 50) (Box (Workplane ''front'') 100 100 100)))"
  by (simp add: reactor_building_Inr_iff example_dimensions Let_def)

subsection \<open>Derived dimensions\<close>

text \<open>
  C1. For a non-empty radial build and a major radius that is not negative, the first two
  lines of \<^verbatim>\<open>reactor_building\<close> give a core radius equal to the sum of the radial build plus
  0.8 plus the major radius, and a core height of twice the core radius. Both are total
  functions of the inputs: the two lines raise nothing.
\<close>

theorem derive_dimensions_exact:
  assumes "radial_build \<noteq> []" and "0 \<le> major_rad"
  shows "reactor_core_radius radial_build major_rad = sum_list radial_build + 0.8 + major_rad
       \<and> reactor_core_height radial_build major_rad
           = 2 * reactor_core_radius radial_build major_rad"
  by (simp add: reactor_core_radius_def reactor_core_height_def sum_py_sum_list)

theorem derive_dimensions_exact_witness:
  "[1, 2, 3 :: real] \<noteq> [] \<and> (0 :: real) \<le> 3 / 2
   \<and> reactor_core_radius [1, 2, 3] (3 / 2) = sum_list [1, 2, 3] + 0.8 + 3 / 2
   \<and> reactor_core_height [1, 2, 3] (3 / 2) = 2 * reactor_core_radius [1, 2, 3] (3 / 2)"
  using derive_dimensions_exact [of "[1, 2, 3]" "3 / 2"] by simp

subsection \<open>Hollow cylinders\<close>

text \<open>
  C2, as stated, has \<^verbatim>\<open>generate_hollow_cylinder\<close> return the set-difference without error
  for every input with outer radius above inner radius. The guard looks at nothing else, so
  with height 1, outer radius 1 and inner radius -1 it passes, the library is asked for a
  cylinder of radius -1, and its exception ends the call: no solid is returned.
\<close>

theorem generate_hollow_cylinder_kernel_refusal:
  "(- 1 :: real) < 1
   \<and> generate_hollow_cylinder refuses_cylinder 1 1 (- 1) (0, 0, 0)
       = Inl (KernelError (Cylinder (Transformed (0, 0, 0) (Workplane ''ZX'')) 1 (- 1)))
   \<and> generate_hollow_cylinder refuses_cylinder 1 1 (- 1) (0, 0, 0)
       \<noteq> Inr (Cut (Cylinder (Transformed (0, 0, 0) (Workplane ''ZX'')) 1 1)
                  (Cylinder (Transformed (0, 0, 0) (Workplane ''ZX'')) 1 (- 1)))"
  by (simp add: generate_hollow_cylinder_def and_then_def cq_def)

text \<open>
  C2, amended. \<^verbatim>\<open>generate_hollow_cylinder\<close> raises its own ValueError (the spec's
  InvalidGeometry) exactly when the outer radius is at most the inner radius, equal radii
  included, whatever the kernel does. When the outer radius is larger it asks the kernel for
  the outer cylinder, the inner cylinder and their cut, on the same transformed workplane
  and with the same height, in that order; it returns the cut when the kernel builds all
  three, and otherwise the exception of the first call the kernel refuses.
\<close>

theorem generate_hollow_cylinder_guard:
  "((generate_hollow_cylinder fails height outer_radius inner_radius offset
       = Inl (ValueError ''outer_radius must be larger than inner_radius''))
      = (outer_radius \<le> inner_radius))
   \<and> (inner_radius < outer_radius \<longrightarrow>
        generate_hollow_cylinder fails height outer_radius inner_radius offset
          = (let cylinder1 = Cylinder (Transformed offset (Workplane ''ZX'')) height outer_radius;
                 cylinder2 = Cylinder (Transformed offset (Workplane ''ZX'')) height inner_radius
             in if fails cylinder1 then Inl (KernelError cylinder1)
                else if fails cylinder2 then Inl (KernelError cylinder2)
                else if fails (Cut cylinder1 cylinder2)
                  then Inl (KernelError (Cut cylinder1 cylinder2))
                else Inr (Cut cylinder1 cylinder2)))"
  by (simp add: generate_hollow_cylinder_def and_then_def cq_def Let_def)

theorem generate_hollow_cylinder_guard_witness:
  "(39 / 5 :: real) < 83 / 10
   \<and> generate_hollow_cylinder refuses_cylinder (83 / 5) (83 / 10) (39 / 5) (0, 0, 0)
       = Inr (Cut (Cylinder (Transformed (0, 0, 0) (Workplane ''ZX'')) (83 / 5) (83 / 10))
                  (Cylinder (Transformed (0, 0, 0) (Workplane ''ZX'')) (83 / 5) (39 / 5)))
   \<and> generate_hollow_cylinder refuses_cylinder 1 5 5 (0, 0, 0)
       = Inl (ValueError ''outer_radius must be larger than inner_radius'')"
  using generate_hollow_cylinder_guard
      [of refuses_cylinder "83 / 5" "83 / 10" "39 / 5" "(0, 0, 0)"]
    generate_hollow_cylinder_guard [of refuses_cylinder 1 5 5 "(0, 0, 0)"]
  by simp

subsection \<open>Support-structure rings\<close>

text \<open>
  C3, as stated, places the upper and lower rings at half the building height (core height
  times scale factor) above and below the middle plane. The code places them at half the
  core height. With radial build 1, 2, 3, major radius 1.5 and scale factor 1.2 the rings
  sit at 8.3 and -8.3, while half the building height is 9.96.
\<close>

theorem support_rings_not_at_building_planes:
  "\<not> (support_structure_upper refuses_cylinder [1, 2, 3] (3 / 2) (6 / 5)
         = generate_hollow_cylinder refuses_cylinder 0.3
             (reactor_core_radius [1, 2, 3] (3 / 2) * (6 / 5))
             (reactor_core_radius [1, 2, 3] (3 / 2))
             (0, 0, building_height [1, 2, 3] (3 / 2) (6 / 5) / 2)
      \<and> support_structure_middle refuses_cylinder [1, 2, 3] (3 / 2) (6 / 5)
         = generate_hollow_cylinder refuses_cylinder 0.3
             (reactor_core_radius [1, 2, 3] (3 / 2) * (6 / 5))
             (reactor_core_radius [1, 2, 3] (3 / 2))
             (0, 0, 0)
      \<and> support_structure_lower refuses_cylinder [1, 2, 3] (3 / 2) (6 / 5)
         = generate_hollow_cylinder refuses_cylinder 0.3
             (reactor_core_radius [1, 2, 3] (3 / 2) * (6 / 5))
             (reactor_core_radius [1, 2, 3] (3 / 2))
             (0, 0, - building_height [1, 2, 3] (3 / 2) (6 / 5) / 2))"
  by (simp add: support_structure_upper_def building_height_def example_dimensions
        generate_hollow_cylinder_def and_then_def cq_def)

text \<open>
  C3, amended. Whenever \<^verbatim>\<open>reactor_building\<close> returns a solid, each of the three support rings
  is a hollow cylinder of thickness 0.3 with outer radius core radius times scale factor
  and inner radius core radius, at the vertical offsets plus half the core height, zero and
  minus half the core height; and the three rings are the fifth, sixth and seventh operands
  of the union, in that order, before the roof.
\<close>

theorem support_rings_at_core_planes:
  assumes "reactor_building fails rb mr sf st ct = Inr s"
  shows "(let r = reactor_core_radius rb mr; h = reactor_core_height rb mr;
              ring = (\<lambda>z. Cut (Cylinder (Transformed (0, 0, z) (Workplane ''ZX'')) 0.3 (r * sf))
                              (Cylinder (Transformed (0, 0, z) (Workplane ''ZX'')) 0.3 r))
          in support_structure_upper fails rb mr sf = Inr (ring (h / 2))
           \<and> support_structure_middle fails rb mr sf = Inr (ring 0)
           \<and> support_structure_lower fails rb mr sf = Inr (ring (- h / 2))
           \<and> (\<exists>base roof'.
                 s = Cut (Union_cq (Union_cq (Union_cq (Union_cq base
                        (ring (h / 2))) (ring 0)) (ring (- h / 2))) roof')
                       (Translate (0, 0, 50) (Box (Workplane ''front'') 100 100 100))))"
  using assms
  by (simp add: reactor_building_Inr_iff Let_def support_structure_upper_def
        support_structure_middle_def support_structure_lower_def
        generate_hollow_cylinder_Inr_iff)

theorem support_rings_at_core_planes_witness:
  "reactor_building refuses_cylinder [1, 2, 3] (3 / 2) (6 / 5) (1 / 2) (3 / 10)
     = Inr (projr (reactor_building refuses_cylinder [1, 2, 3] (3 / 2) (6 / 5) (1 / 2) (3 / 10)))
   \<and> support_structure_upper refuses_cylinder [1, 2, 3] (3 / 2) (6 / 5)
       = Inr (Cut (Cylinder (Transformed (0, 0, 83 / 10) (Workplane ''ZX'')) 0.3 (249 / 25))
                  (Cylinder (Transformed (0, 0, 83 / 10) (Workplane ''ZX'')) 0.3 (83 / 10)))
   \<and> support_structure_lower refuses_cylinder [1, 2, 3] (3 / 2) (6 / 5)
       = Inr (Cut (Cylinder (Transformed (0, 0, - 83 / 10) (Workplane ''ZX'')) 0.3 (249 / 25))
                  (Cylinder (Transformed (0, 0, - 83 / 10) (Workplane ''ZX'')) 0.3 (83 / 10)))"
  using support_rings_at_core_planes [of refuses_cylinder "[1, 2, 3]" "3 / 2" "6 / 5" "1 / 2"
      "3 / 10"
      "projr (reactor_building refuses_cylinder [1, 2, 3] (3 / 2) (6 / 5) (1 / 2) (3 / 10))"]
  by (simp add: reactor_building_example example_dimensions Let_def)

subsection \<open>Roofs\<close>

text \<open>
  C4, as stated, has the inner tapered shape at the same vertical position as the outer one
  when it is subtracted. The code first moves the inner shape down by 0.3, so the solid it
  builds is not the one the claim describes; here for a radius of 9.96 and a building height
  of 19.92.
\<close>

theorem cone_roof_inner_is_lowered:
  "create_roof refuses_cylinder (3 / 10) ''cone'' (249 / 25) (498 / 25)
     \<noteq> Inr (Translate (0, (498 / 25) / 2 + 0.15, 0)
              (Cut (Chamfer ''>Y'' (0.75 * (4 * 0.3))
                      (Cylinder (Workplane ''ZX'') (4 * 0.3) (249 / 25)))
                   (Chamfer ''>Y'' (0.75 * (4 * 0.3))
                      (Cylinder (Workplane ''ZX'') (4 * 0.3) (249 / 25 - 0.2)))))"
  by (simp add: create_roof_cone_Inr_iff)

text \<open>
  C4, amended. The cone roof is built from two cylinders on the ZX workplane of height
  4 * 0.3 = 1.2, of radius \<open>radius\<close> and \<open>radius - 0.2\<close>, each chamfered on its top edge
  (selector ">Y") by 0.75 * 1.2 = 0.9; the inner chamfered shape is translated by -0.3 along
  the vertical axis and then cut from the outer one; the result is translated to the roof
  offset height \<open>building_height / 2 + 0.15\<close>. This is the solid returned when the kernel
  refuses nothing; on any kernel it is the only solid the branch can return, it is returned
  exactly when the kernel refuses none of its seven operations, and the branch raises nothing
  but a kernel exception.
\<close>

theorem create_roof_cone:
  "create_roof (\<lambda>n. False) contain_thickness ''cone'' radius bh =
     Inr (Translate (0, bh / 2 + 0.15, 0)
           (Cut (Chamfer ''>Y'' 0.9 (Cylinder (Workplane ''ZX'') 1.2 radius))
                (Translate (0, - 0.3, 0)
                   (Chamfer ''>Y'' 0.9 (Cylinder (Workplane ''ZX'') 1.2 (radius - 0.2))))))
   \<and> ((create_roof fails contain_thickness ''cone'' radius bh = Inr s)
      = (s = Translate (0, bh / 2 + 0.15, 0)
               (Cut (Chamfer ''>Y'' 0.9 (Cylinder (Workplane ''ZX'') 1.2 radius))
                    (Translate (0, - 0.3, 0)
                       (Chamfer ''>Y'' 0.9 (Cylinder (Workplane ''ZX'') 1.2 (radius - 0.2)))))
         \<and> (\<forall>n \<in> operations s. \<not> fails n)))
   \<and> (create_roof fails contain_thickness ''cone'' radius bh = Inl e
        \<longrightarrow> (\<exists>n. e = KernelError n))"
proof -
  have "create_roof (\<lambda>n. False) contain_thickness ''cone'' radius bh =
     Inr (Translate (0, bh / 2 + 0.15, 0)
           (Cut (Chamfer ''>Y'' 0.9 (Cylinder (Workplane ''ZX'') 1.2 radius))
                (Translate (0, - 0.3, 0)
                   (Chamfer ''>Y'' 0.9 (Cylinder (Workplane ''ZX'') 1.2 (radius - 0.2))))))"
    by (simp add: create_roof_cone_Inr_iff)
  then show ?thesis
    using create_roof_cone_Inr_iff [of fails contain_thickness radius bh s]
      create_roof_cone_Inl [of fails contain_thickness radius bh e]
    by blast
qed

theorem create_roof_cone_witness:
  "create_roof refuses_cylinder (3 / 10) ''cone'' (249 / 25) (498 / 25) =
     Inr (Translate (0, 1011 / 100, 0)
           (Cut (Chamfer ''>Y'' 0.9 (Cylinder (Workplane ''ZX'') 1.2 (249 / 25)))
                (Translate (0, - 0.3, 0)
                   (Chamfer ''>Y'' 0.9 (Cylinder (Workplane ''ZX'') 1.2 (244 / 25))))))
   \<and> create_roof refuses_cylinder (3 / 10) ''cone'' 0 (498 / 25)
       = Inl (KernelError (Cylinder (Workplane ''ZX'') 1.2 0))
   \<and> (\<exists>n. KernelError (Cylinder (Workplane ''ZX'') 1.2 0) = KernelError n)"
  using create_roof_cone [of "3 / 10" "249 / 25" "498 / 25" refuses_cylinder
      "Translate (0, 1011 / 100, 0)
           (Cut (Chamfer ''>Y'' 0.9 (Cylinder (Workplane ''ZX'') 1.2 (249 / 25)))
                (Translate (0, - 0.3, 0)
                   (Chamfer ''>Y'' 0.9 (Cylinder (Workplane ''ZX'') 1.2 (244 / 25)))))"]
    create_roof_cone [of "3 / 10" 0 "498 / 25" refuses_cylinder _
      "KernelError (Cylinder (Workplane ''ZX'') 1.2 0)"]
  by (simp add: create_roof_def Let_def and_then_def cq_def)

text \<open>
  C5. For a roof kind other than "flat", "domed" and "cone", \<^verbatim>\<open>create_roof\<close> raises the
  ValueError "Invalid roof type" (the spec's InvalidRoofType) and returns no solid, before
  any call into the kernel.
\<close>

theorem create_roof_unknown_kind:
  assumes "roof_type \<notin> {''flat'', ''domed'', ''cone''}"
  shows "create_roof fails contain_thickness roof_type radius bh
           = Inl (ValueError ''Invalid roof type'')
       \<and> (\<forall>s. create_roof fails contain_thickness roof_type radius bh \<noteq> Inr s)"
  using assms by (simp add: create_roof_def)

theorem create_roof_unknown_kind_witness:
  "''pyramid'' \<notin> {''flat'', ''domed'', ''cone''}
   \<and> create_roof refuses_cylinder (3 / 10) ''pyramid'' (249 / 25) (498 / 25)
       = Inl (ValueError ''Invalid roof type'')"
  using create_roof_unknown_kind [of "''pyramid''" refuses_cylinder "3 / 10" "249 / 25" "498 / 25"]
  by simp

text \<open>
  C6. The roof of \<^verbatim>\<open>reactor_building\<close> is \<^verbatim>\<open>create_roof\<close> called with the kind "cone", the radius
  core radius times scale factor and the building height, for every input. It is never the
  outcome of the flat or the domed roof of those arguments, and whenever \<^verbatim>\<open>reactor_building\<close>
  returns a solid, the last operand of its union is that cone roof.
\<close>

theorem roof_is_always_cone:
  "roof fails rb mr sf ct
     = create_roof fails ct ''cone'' (reactor_core_radius rb mr * sf)
         (reactor_core_height rb mr * sf)
   \<and> roof fails rb mr sf ct
     \<noteq> create_roof fails ct ''flat'' (reactor_core_radius rb mr * sf)
         (reactor_core_height rb mr * sf)
   \<and> roof fails rb mr sf ct
     \<noteq> create_roof fails ct ''domed'' (reactor_core_radius rb mr * sf)
         (reactor_core_height rb mr * sf)
   \<and> (reactor_building fails rb mr sf st ct = Inr s \<longrightarrow>
        (\<exists>body roof'. roof fails rb mr sf ct = Inr roof'
           \<and> s = Cut (Union_cq body roof')
                   (Translate (0, 0, 50) (Box (Workplane ''front'') 100 100 100))))"
proof -
  have "reactor_building fails rb mr sf st ct = Inr s \<longrightarrow>
        (\<exists>body roof'. roof fails rb mr sf ct = Inr roof'
           \<and> s = Cut (Union_cq body roof')
                   (Translate (0, 0, 50) (Box (Workplane ''front'') 100 100 100)))"
    by (simp add: reactor_building_Inr_iff Let_def roof_def building_height_def
          create_roof_cone_Inr_iff)
  moreover have "roof fails rb mr sf ct
     = create_roof fails ct ''cone'' (reactor_core_radius rb mr * sf)
         (reactor_core_height rb mr * sf)"
    by (simp add: roof_def building_height_def)
  moreover have "roof fails rb mr sf ct
     \<noteq> create_roof fails ct ''flat'' (reactor_core_radius rb mr * sf)
         (reactor_core_height rb mr * sf)"
    by (simp add: roof_def create_roof_def Let_def and_then_def cq_def)
  moreover have "roof fails rb mr sf ct
     \<noteq> create_roof fails ct ''domed'' (reactor_core_radius rb mr * sf)
         (reactor_core_height rb mr * sf)"
    by (simp add: roof_def create_roof_def Let_def and_then_def cq_def)
  ultimately show ?thesis by blast
qed

theorem roof_is_always_cone_witness:
  "reactor_building refuses_cylinder [1, 2, 3] (3 / 2) (6 / 5) (1 / 2) (3 / 10)
     = Inr (projr (reactor_building refuses_cylinder [1, 2, 3] (3 / 2) (6 / 5) (1 / 2) (3 / 10)))
   \<and> (\<exists>body roof'.
         create_roof refuses_cylinder (3 / 10) ''cone'' (249 / 25) (498 / 25) = Inr roof'
       \<and> projr (reactor_building refuses_cylinder [1, 2, 3] (3 / 2) (6 / 5) (1 / 2) (3 / 10))
           = Cut (Union_cq body roof')
               (Translate (0, 0, 50) (Box (Workplane ''front'') 100 100 100)))"
  using roof_is_always_cone [of refuses_cylinder "[1, 2, 3]" "3 / 2" "6 / 5" "3 / 10" "1 / 2"
      "projr (reactor_building refuses_cylinder [1, 2, 3] (3 / 2) (6 / 5) (1 / 2) (3 / 10))"]
  by (simp add: reactor_building_example example_dimensions create_roof_cone_Inr_iff)

subsection \<open>The end-to-end example\<close>

text \<open>
  C7. With radial build 1.0, 2.0, 3.0 and aspect ratio 1.5 the script derives the major
  radius 1.5, the core radius 8.3 and the core height 16.6; with shield thickness 0.5 the
  reactor shielding passes the radius guard on every kernel (7.8 < 8.3) and is the hollow
  cylinder of height 16.6, outer radius 8.3 and inner radius 7.8, both on the kernel that
  refuses non-positive cylinders and on one that refuses nothing; with scale factor 1.2 and
  containment thickness 0.3 the whole script returns a solid.
\<close>

theorem end_to_end_example:
  "major_radius 1.5 [1, 2, 3] = Inr 1.5
   \<and> reactor_core_radius [1, 2, 3] 1.5 = 8.3
   \<and> reactor_core_height [1, 2, 3] 1.5 = 16.6
   \<and> reactor_shielding fails [1, 2, 3] 1.5 0.5
       \<noteq> Inl (ValueError ''outer_radius must be larger than inner_radius'')
   \<and> reactor_shielding refuses_cylinder [1, 2, 3] 1.5 0.5
       = Inr (Cut (Cylinder (Transformed (0, 0, 0) (Workplane ''ZX'')) 16.6 8.3)
                  (Cylinder (Transformed (0, 0, 0) (Workplane ''ZX'')) 16.6 7.8))
   \<and> reactor_shielding (\<lambda>n. False) [1, 2, 3] 1.5 0.5
       = Inr (Cut (Cylinder (Transformed (0, 0, 0) (Workplane ''ZX'')) 16.6 8.3)
                  (Cylinder (Transformed (0, 0, 0) (Workplane ''ZX'')) 16.6 7.8))
   \<and> (\<exists>s. containment_vessel refuses_cylinder 1.5 [1, 2, 3] 1.2 0.5 0.3 = Inr s)"
  by (simp add: major_radius_def containment_vessel_def reactor_shielding_def
        generate_hollow_cylinder_def and_then_def cq_def example_dimensions
        reactor_building_example)

subsection \<open>Determinism\<close>

text \<open>
  C9. \<^verbatim>\<open>reactor_building\<close> reads its five parameters and the answers of the kernel, nothing
  else. If one invocation returns a solid, a second invocation with the same radial build,
  major radius, scale factor, shield thickness and containment thickness returns the
  identical solid, provided the kernel answers the second time as it did the first on the
  operations that solid is built from (a deterministic kernel); how the two kernels behave
  on any other request is irrelevant.
\<close>

theorem reactor_building_repeatable:
  assumes "reactor_building fails1 radial_build major_rad scale_factor shield_thickness
             contain_thickness = Inr s"
    and "\<forall>n \<in> operations s. fails2 n = fails1 n"
  shows "reactor_building fails2 radial_build major_rad scale_factor shield_thickness
           contain_thickness = Inr s"
proof -
  from assms(1) have ideal: "reactor_building (\<lambda>n. False) radial_build major_rad scale_factor
      shield_thickness contain_thickness = Inr s"
    and first: "\<forall>n \<in> operations s. \<not> fails1 n"
    using reactor_building_Inr_ideal [of fails1] by blast+
  from first assms(2) have "\<forall>n \<in> operations s. \<not> fails2 n" by simp
  with ideal show ?thesis
    using reactor_building_Inr_ideal [of fails2] by blast
qed

theorem reactor_building_repeatable_witness:
  "reactor_building refuses_cylinder [1, 2, 3] (3 / 2) (6 / 5) (1 / 2) (3 / 10)
     = Inr (projr (reactor_building refuses_cylinder [1, 2, 3] (3 / 2) (6 / 5) (1 / 2) (3 / 10)))
   \<and> reactor_building (\<lambda>n. False) [1, 2, 3] (3 / 2) (6 / 5) (1 / 2) (3 / 10)
     = reactor_building refuses_cylinder [1, 2, 3] (3 / 2) (6 / 5) (1 / 2) (3 / 10)"
  using reactor_building_repeatable [of refuses_cylinder "[1, 2, 3]" "3 / 2" "6 / 5" "1 / 2"
      "3 / 10"
      "projr (reactor_building refuses_cylinder [1, 2, 3] (3 / 2) (6 / 5) (1 / 2) (3 / 10))"
      "\<lambda>n. False"]
  by (simp add: reactor_building_example)

subsection \<open>The scale factor\<close>




end
